theory Spec2Isabelle
  imports Complex_Main "HOL-Library.Stream" "HOL-Library.Log_Nat"
begin

section \<open>The simulation core of main.py\<close>

text \<open>
  The core of \<^verbatim>\<open>main.py\<close> is three functions: \<^verbatim>\<open>get_daily_returns\<close>,
  \<^verbatim>\<open>monte_carlo_simulation\<close> and \<^verbatim>\<open>compute_risk_metrics\<close>. Python ints are \<open>int\<close>.
  Every exception the interpreter can raise on these lines is a value \<open>Inl e\<close>; the value
  \<^verbatim>\<open>None\<close> that the source returns is \<open>None\<close> of an option type and is not an
  exception.

  Python floats are IEEE 754 binary64 numbers, and the functions are given in two
  readings. The first reads float arithmetic as arithmetic on the reals. It is used for
  the properties that no rounding, overflow or underflow can change: which branch is
  taken on too little data, how many paths and elements there are, which draws are
  consumed, which list objects are written. The second reading, further down, rounds
  every operation to binary64 and has the infinities, NaN and \<^verbatim>\<open>OverflowError\<close>; it
  is used where the outcome depends on them: the Sharpe ratio of line 99 and the sign of
  the prices of line 88.
\<close>

subsection \<open>Exceptions\<close>

text \<open>
  \<^verbatim>\<open>IndexError\<close>, \<^verbatim>\<open>ZeroDivisionError\<close>, \<^verbatim>\<open>ValueError\<close>, \<^verbatim>\<open>TypeError\<close> and
  \<^verbatim>\<open>OverflowError\<close> are the built-in exceptions that the operations used by the source
  raise. \<^verbatim>\<open>InsufficientDataError\<close> and \<^verbatim>\<open>InvalidParameterError\<close> are the error kinds
  that the specification names; they are listed so that statements can speak about them,
  and no definition below produces them, because no line of the source raises them.
\<close>

datatype exn =
    IndexError
  | ZeroDivisionError
  | ValueError
  | TypeError
  | InsufficientDataError
  | InvalidParameterError
  | OverflowError

subsection \<open>Python primitives used by the source\<close>

text \<open>\<^verbatim>\<open>a / b\<close> on floats: raises on a zero divisor.\<close>

definition py_truediv :: "real \<Rightarrow> real \<Rightarrow> exn + real" where
  "py_truediv a b = (if b = 0 then Inl ZeroDivisionError else Inr (a / b))"

text \<open>\<^verbatim>\<open>sum(xs)\<close>: adds from the left, starting at 0.\<close>

definition py_sum :: "real list \<Rightarrow> real" where
  "py_sum xs = fold (\<lambda>x acc. acc + x) xs 0"

text \<open>\<^verbatim>\<open>max(xs)\<close> and \<^verbatim>\<open>min(xs)\<close>: raise ValueError on an empty sequence.\<close>

definition py_max :: "real list \<Rightarrow> exn + real" where
  "py_max xs = (case xs of [] \<Rightarrow> Inl ValueError | x # rest \<Rightarrow> Inr (fold max rest x))"

definition py_min :: "real list \<Rightarrow> exn + real" where
  "py_min xs = (case xs of [] \<Rightarrow> Inl ValueError | x # rest \<Rightarrow> Inr (fold min rest x))"

text \<open>\<^verbatim>\<open>int(x)\<close> on a float: truncation towards zero.\<close>

definition py_int :: "real \<Rightarrow> int" where
  "py_int x = (if 0 \<le> x then \<lfloor>x\<rfloor> else \<lceil>x\<rceil>)"

text \<open>\<^verbatim>\<open>xs[i]\<close>: a negative index counts from the end; out of range raises IndexError.\<close>

definition py_getitem :: "'a list \<Rightarrow> int \<Rightarrow> exn + 'a" where
  "py_getitem xs i =
     (let n = int (length xs);
          j = (if i < 0 then i + n else i)
      in if 0 \<le> j \<and> j < n then Inr (xs ! nat j) else Inl IndexError)"

text \<open>\<^verbatim>\<open>math.sqrt(x)\<close>: raises ValueError on a negative argument.\<close>

definition math_sqrt :: "real \<Rightarrow> exn + real" where
  "math_sqrt x = (if x < 0 then Inl ValueError else Inr (sqrt x))"

text \<open>
  A list comprehension whose element expression can raise: the elements are evaluated
  in order and the first exception ends the evaluation.
\<close>

fun collect :: "(exn + 'a) list \<Rightarrow> exn + 'a list" where
  "collect [] = Inr []"
| "collect (Inl e # rs) = Inl e"
| "collect (Inr v # rs) = (case collect rs of Inl e \<Rightarrow> Inl e | Inr vs \<Rightarrow> Inr (v # vs))"

subsection \<open>The process state: standard output and the global random generator\<close>

text \<open>
  The source prints to standard output and draws from the process-global generator of
  the \<^verbatim>\<open>random\<close> module. The state of that generator is represented by what it
  determines: the infinite sequence of standard normal variates that successive calls
  of \<^verbatim>\<open>random.gauss\<close> will use. Seeding the generator identically means starting from
  the same sequence.
\<close>

record world =
  stdout :: "string list"
  rng :: "real stream"

text \<open>
  \<^verbatim>\<open>random.gauss(mu, sigma)\<close> of the standard library returns \<^verbatim>\<open>mu + z * sigma\<close>,
  where \<^verbatim>\<open>z\<close> is the next standard normal variate, and advances the generator.
\<close>

definition random_gauss :: "real \<Rightarrow> real \<Rightarrow> real stream \<Rightarrow> real \<times> real stream" where
  "random_gauss mu sigma g = (mu + shd g * sigma, stl g)"

subsection \<open>get_daily_returns (lines 58 to 68)\<close>

text \<open>
  The database is an external collaborator: \<open>rows\<close> is the result of
  \<^verbatim>\<open>cursor.fetchall()\<close> for the query of line 61, a list of (date, close_price) pairs
  ordered by date. With fewer than two rows the function prints a message and returns
  \<^verbatim>\<open>None\<close>. Otherwise the comprehension of line 67 runs over \<^verbatim>\<open>range(1, len(rows))\<close>.
\<close>

definition get_daily_returns ::
  "(string \<times> real) list \<Rightarrow> world \<Rightarrow> (exn + real list option) \<times> world" where
  "get_daily_returns rows w =
     (if length rows < 2
      then (Inr None, w\<lparr>stdout := stdout w @ [''Not enough data for simulation.'']\<rparr>)
      else
        (case collect (map (\<lambda>i. py_truediv (snd (rows ! i) - snd (rows ! (i - 1)))
                                             (snd (rows ! (i - 1))))
                           [1..<length rows]) of
           Inl e \<Rightarrow> (Inl e, w)
         | Inr returns \<Rightarrow> (Inr (Some returns), w)))"

subsection \<open>monte_carlo_simulation (lines 70 to 91)\<close>

text \<open>Lines 74 and 75: \<^verbatim>\<open>avg_return\<close> and \<^verbatim>\<open>volatility\<close> of the return series.\<close>

definition return_statistics :: "real list \<Rightarrow> exn + real \<times> real" where
  "return_statistics returns =
     (case py_truediv (py_sum returns) (real (length returns)) of
        Inl e \<Rightarrow> Inl e
      | Inr avg_return \<Rightarrow>
          (case py_max returns of
             Inl e \<Rightarrow> Inl e
           | Inr mx \<Rightarrow>
               (case py_min returns of
                  Inl e \<Rightarrow> Inl e
                | Inr mn \<Rightarrow> Inr (avg_return, (mx - mn) / 2))))"

text \<open>
  Lines 85 to 89, the inner loop \<^verbatim>\<open>for _ in range(days)\<close>: the first argument is the
  number of iterations left, \<open>price\<close> and \<open>path\<close> are the loop's variables.
\<close>

fun path_loop ::
  "nat \<Rightarrow> real \<Rightarrow> real \<Rightarrow> real \<Rightarrow> real list \<Rightarrow> real stream \<Rightarrow> real list \<times> real stream" where
  "path_loop 0 avg_return volatility price path g = (path, g)"
| "path_loop (Suc n) avg_return volatility price path g =
     (let (random_factor, g') = random_gauss avg_return volatility g;
          price' = price * (1 + random_factor)
      in path_loop n avg_return volatility price' (path @ [price']) g')"

text \<open>
  Lines 82 to 90, the outer loop \<^verbatim>\<open>for _ in range(simulations)\<close>. \<^verbatim>\<open>range(days)\<close> of
  a negative \<^verbatim>\<open>days\<close> is empty, which \<open>nat days\<close> gives.
\<close>

fun simulations_loop ::
  "nat \<Rightarrow> int \<Rightarrow> real \<Rightarrow> real \<Rightarrow> real \<Rightarrow> real list list \<Rightarrow> real stream
     \<Rightarrow> real list list \<times> real stream" where
  "simulations_loop 0 days last_close_price avg_return volatility simulations_result g =
     (simulations_result, g)"
| "simulations_loop (Suc n) days last_close_price avg_return volatility simulations_result g =
     (let (path, g') = path_loop (nat days) avg_return volatility
                         last_close_price [last_close_price] g
      in simulations_loop n days last_close_price avg_return volatility
           (simulations_result @ [path]) g')"

text \<open>
  Lines 81 to 91: the part of \<^verbatim>\<open>monte_carlo_simulation\<close> that the specification calls
  \<^verbatim>\<open>simulate\<close>, from the start price, the two statistics, \<^verbatim>\<open>days\<close> and
  \<^verbatim>\<open>simulations\<close>.
\<close>

definition simulate ::
  "real \<Rightarrow> real \<Rightarrow> real \<Rightarrow> int \<Rightarrow> int \<Rightarrow> real stream \<Rightarrow> real list list \<times> real stream" where
  "simulate last_close_price avg_return volatility days simulations g =
     simulations_loop (nat simulations) days last_close_price avg_return volatility [] g"

text \<open>
  The whole function. \<open>rows\<close> is the result of the query inside \<^verbatim>\<open>get_daily_returns\<close>
  and \<open>last_row\<close> the result of \<^verbatim>\<open>cursor.fetchone()\<close> for the query of line 78
  (\<open>None\<close> when the query has no row, on which \<^verbatim>\<open>[0]\<close> raises TypeError).
  \<^verbatim>\<open>if not returns\<close> holds for \<^verbatim>\<open>None\<close> and for the empty list.
\<close>

definition monte_carlo_simulation ::
  "(string \<times> real) list \<Rightarrow> real option \<Rightarrow> int \<Rightarrow> int \<Rightarrow> world
     \<Rightarrow> (exn + real list list option) \<times> world" where
  "monte_carlo_simulation rows last_row days simulations w =
     (case get_daily_returns rows w of
        (Inl e, w1) \<Rightarrow> (Inl e, w1)
      | (Inr None, w1) \<Rightarrow> (Inr None, w1)
      | (Inr (Some returns), w1) \<Rightarrow>
          if returns = [] then (Inr None, w1)
          else
            (case return_statistics returns of
               Inl e \<Rightarrow> (Inl e, w1)
             | Inr (avg_return, volatility) \<Rightarrow>
                 (case last_row of
                    None \<Rightarrow> (Inl TypeError, w1)
                  | Some last_close_price \<Rightarrow>
                      (let (simulations_result, g) =
                             simulate last_close_price avg_return volatility
                               days simulations (rng w1)
                       in (Inr (Some simulations_result), w1\<lparr>rng := g\<rparr>)))))"

subsection \<open>compute_risk_metrics (lines 93 to 100)\<close>

text \<open>
  The argument \<^verbatim>\<open>final_prices\<close> is a reference to a list object owned by the caller.
  To tell sorting a copy from sorting in place, list objects live in a store, a list of
  list values addressed by position. \<^verbatim>\<open>sorted(xs)\<close> allocates a new list object
  holding the sorted elements and returns its reference.
\<close>

type_synonym ref = nat
type_synonym store = "real list list"

definition py_sorted :: "store \<Rightarrow> ref \<Rightarrow> ref \<times> store" where
  "py_sorted s a = (length s, s @ [sort (s ! a)])"

definition compute_risk_metrics ::
  "store \<Rightarrow> ref \<Rightarrow> real \<Rightarrow> (exn + real \<times> real \<times> real) \<times> store" where
  "compute_risk_metrics s final_prices risk_free_rate =
     (let (sorted_prices, s1) = py_sorted s final_prices;
          index_5 = py_int (5 / 100 * real (length (s1 ! sorted_prices)))
      in (case py_getitem (s1 ! sorted_prices) index_5 of
            Inl e \<Rightarrow> Inl e
          | Inr var_95 \<Rightarrow>
              (case py_truediv (py_sum (s1 ! final_prices))
                               (real (length (s1 ! final_prices))) of
                 Inl e \<Rightarrow> Inl e
               | Inr expected_return \<Rightarrow>
                   (case py_truediv
                           (py_sum (map (\<lambda>x. (x - expected_return) ^ 2) (s1 ! final_prices)))
                           (real (length (s1 ! final_prices))) of
                      Inl e \<Rightarrow> Inl e
                    | Inr mean_square \<Rightarrow>
                        (case math_sqrt mean_square of
                           Inl e \<Rightarrow> Inl e
                         | Inr volatility \<Rightarrow>
                             (case (if volatility \<noteq> 0
                                    then py_truediv (expected_return - risk_free_rate) volatility
                                    else Inr 0) of
                                Inl e \<Rightarrow> Inl e
                              | Inr sharpe_ratio \<Rightarrow>
                                  Inr (var_95, expected_return, sharpe_ratio))))),
          s1))"

section \<open>The binary64 reading\<close>

subsection \<open>Float values and rounding\<close>

text \<open>
  A float is a finite number, an infinity or NaN. The two zeros are not told apart:
  they compare equal and no operation of the source separates them.
\<close>

datatype fval = Fin real | PInf | NInf | NaN

text \<open>
  Rounding to nearest, ties to even. \<open>fexp x\<close> is the exponent \<open>e\<close> with
  \<open>2^e \<le> |x| < 2^(e+1)\<close>; the spacing of the floats around \<open>x\<close> is \<open>2^(e-52)\<close>, and
  \<open>2^(-1074)\<close> in the subnormal range. A result of magnitude \<open>2^1024\<close> or more is an
  infinity.
\<close>

definition round_half_even :: "real \<Rightarrow> int" where
  "round_half_even t =
     (let f = \<lfloor>t\<rfloor>; d = t - of_int f
      in if d < 1 / 2 then f else if 1 / 2 < d then f + 1 else if even f then f else f + 1)"

definition fexp :: "real \<Rightarrow> int" where
  "fexp x = (if 1 \<le> \<bar>x\<bar> then bitlen \<lfloor>\<bar>x\<bar>\<rfloor> - 1 else - bitlen (\<lceil>1 / \<bar>x\<bar>\<rceil> - 1))"

definition quantum :: "real \<Rightarrow> real" where
  "quantum x = 2 powi (max (fexp x) (- 1022) - 52)"

definition fround :: "real \<Rightarrow> fval" where
  "fround x =
     (if x = 0 then Fin 0
      else
        (let q = quantum x;
             y = of_int (round_half_even (\<bar>x\<bar> / q)) * q
         in if 2 ^ 1024 \<le> y then (if 0 < x then PInf else NInf)
            else Fin (if 0 < x then y else - y)))"

subsection \<open>Float operations of Python\<close>

text \<open>
  \<^verbatim>\<open>+\<close>, \<^verbatim>\<open>-\<close> and \<^verbatim>\<open>*\<close> round the exact result and never raise: an overflow gives an
  infinity, an undefined result NaN.
\<close>

fun fneg :: "fval \<Rightarrow> fval" where
  "fneg (Fin a) = Fin (- a)"
| "fneg PInf = NInf"
| "fneg NInf = PInf"
| "fneg NaN = NaN"

fun fadd :: "fval \<Rightarrow> fval \<Rightarrow> fval" where
  "fadd (Fin a) (Fin b) = fround (a + b)"
| "fadd NaN y = NaN"
| "fadd x NaN = NaN"
| "fadd PInf NInf = NaN"
| "fadd NInf PInf = NaN"
| "fadd PInf y = PInf"
| "fadd x PInf = PInf"
| "fadd NInf y = NInf"
| "fadd x NInf = NInf"

definition fsub :: "fval \<Rightarrow> fval \<Rightarrow> fval" where
  "fsub x y = fadd x (fneg y)"

fun fmul :: "fval \<Rightarrow> fval \<Rightarrow> fval" where
  "fmul (Fin a) (Fin b) = fround (a * b)"
| "fmul NaN y = NaN"
| "fmul x NaN = NaN"
| "fmul PInf (Fin b) = (if b = 0 then NaN else if 0 < b then PInf else NInf)"
| "fmul NInf (Fin b) = (if b = 0 then NaN else if 0 < b then NInf else PInf)"
| "fmul (Fin a) PInf = (if a = 0 then NaN else if 0 < a then PInf else NInf)"
| "fmul (Fin a) NInf = (if a = 0 then NaN else if 0 < a then NInf else PInf)"
| "fmul PInf PInf = PInf"
| "fmul PInf NInf = NInf"
| "fmul NInf PInf = NInf"
| "fmul NInf NInf = PInf"

text \<open>
  \<^verbatim>\<open>/\<close> raises \<^verbatim>\<open>ZeroDivisionError\<close> on a zero divisor, whatever the dividend.
\<close>

fun fdiv :: "fval \<Rightarrow> fval \<Rightarrow> exn + fval" where
  "fdiv x (Fin b) =
     (if b = 0 then Inl ZeroDivisionError
      else (case x of
              Fin a \<Rightarrow> Inr (fround (a / b))
            | PInf \<Rightarrow> Inr (if 0 < b then PInf else NInf)
            | NInf \<Rightarrow> Inr (if 0 < b then NInf else PInf)
            | NaN \<Rightarrow> Inr NaN))"
| "fdiv (Fin a) PInf = Inr (Fin 0)"
| "fdiv (Fin a) NInf = Inr (Fin 0)"
| "fdiv x y = Inr NaN"

text \<open>
  \<^verbatim>\<open>x ** 2\<close> raises \<^verbatim>\<open>OverflowError\<close> when the square of a finite \<^verbatim>\<open>x\<close> is out of
  range; an underflow is silent. The power function of the C library is taken as
  correctly rounded.
\<close>

fun fpow2 :: "fval \<Rightarrow> exn + fval" where
  "fpow2 (Fin a) = (case fround (a * a) of Fin y \<Rightarrow> Inr (Fin y) | _ \<Rightarrow> Inl OverflowError)"
| "fpow2 NaN = Inr NaN"
| "fpow2 x = Inr PInf"

text \<open>
  \<^verbatim>\<open>math.sqrt\<close> is correctly rounded and raises \<^verbatim>\<open>ValueError\<close> on a negative
  argument. \<^verbatim>\<open>int(x)\<close> raises on an infinity and on NaN. \<^verbatim>\<open>x != 0\<close> holds for the
  infinities and for NaN.
\<close>

fun fsqrt :: "fval \<Rightarrow> exn + fval" where
  "fsqrt (Fin a) = (if a < 0 then Inl ValueError else Inr (fround (sqrt a)))"
| "fsqrt PInf = Inr PInf"
| "fsqrt NInf = Inl ValueError"
| "fsqrt NaN = Inr NaN"

fun fint :: "fval \<Rightarrow> exn + int" where
  "fint (Fin a) = Inr (py_int a)"
| "fint NaN = Inl ValueError"
| "fint x = Inl OverflowError"

fun fne0 :: "fval \<Rightarrow> bool" where
  "fne0 (Fin a) = (a \<noteq> 0)"
| "fne0 x = True"

text \<open>
  \<^verbatim>\<open>sum\<close> adds from the left, starting at 0, one rounding per addition (CPython
  before 3.12; later versions carry a compensation term, which gives the same value on
  the lists evaluated below).
\<close>

definition fsum :: "fval list \<Rightarrow> fval" where
  "fsum xs = fold (\<lambda>x acc. fadd acc x) xs (Fin 0)"

subsection \<open>compute_risk_metrics in binary64 (lines 93 to 100)\<close>

text \<open>
  The list holds finite floats. The literal \<^verbatim>\<open>0.05\<close> is the float nearest to
  \<open>5/100\<close>, and \<^verbatim>\<open>len(...)\<close> is converted to a float where it meets one. The store is
  treated as in the first reading.
\<close>

definition compute_risk_metrics_fl ::
  "store \<Rightarrow> ref \<Rightarrow> real \<Rightarrow> (exn + real \<times> fval \<times> fval) \<times> store" where
  "compute_risk_metrics_fl s final_prices risk_free_rate =
     (let (sorted_prices, s1) = py_sorted s final_prices
      in (case fint (fmul (fround (5 / 100)) (fround (real (length (s1 ! sorted_prices))))) of
            Inl e \<Rightarrow> Inl e
          | Inr index_5 \<Rightarrow>
          (case py_getitem (s1 ! sorted_prices) index_5 of
            Inl e \<Rightarrow> Inl e
          | Inr var_95 \<Rightarrow>
          (case fdiv (fsum (map Fin (s1 ! final_prices)))
                     (fround (real (length (s1 ! final_prices)))) of
            Inl e \<Rightarrow> Inl e
          | Inr expected_return \<Rightarrow>
          (case collect (map (\<lambda>x. fpow2 (fsub (Fin x) expected_return)) (s1 ! final_prices)) of
            Inl e \<Rightarrow> Inl e
          | Inr squares \<Rightarrow>
          (case fdiv (fsum squares) (fround (real (length (s1 ! final_prices)))) of
            Inl e \<Rightarrow> Inl e
          | Inr mean_square \<Rightarrow>
          (case fsqrt mean_square of
            Inl e \<Rightarrow> Inl e
          | Inr volatility \<Rightarrow>
          (case (if fne0 volatility
                 then fdiv (fsub expected_return (Fin risk_free_rate)) volatility
                 else Inr (Fin 0)) of
            Inl e \<Rightarrow> Inl e
          | Inr sharpe_ratio \<Rightarrow> Inr (var_95, expected_return, sharpe_ratio))))))),
          s1))"

subsection \<open>The simulation loops in binary64 (lines 81 to 91)\<close>

text \<open>
  The generator yields finite floats. Line 87 is \<^verbatim>\<open>mu + z * sigma\<close>, line 88
  multiplies the price by \<^verbatim>\<open>1 + random_factor\<close>; \<open>factor_fl\<close> is that factor as a
  function of the variate \<open>z\<close>.
\<close>

definition random_gauss_fl :: "fval \<Rightarrow> fval \<Rightarrow> real stream \<Rightarrow> fval \<times> real stream" where
  "random_gauss_fl mu sigma g = (fadd mu (fmul (Fin (shd g)) sigma), stl g)"

fun path_loop_fl ::
  "nat \<Rightarrow> fval \<Rightarrow> fval \<Rightarrow> fval \<Rightarrow> fval list \<Rightarrow> real stream \<Rightarrow> fval list \<times> real stream" where
  "path_loop_fl 0 avg_return volatility price path g = (path, g)"
| "path_loop_fl (Suc n) avg_return volatility price path g =
     (let (random_factor, g') = random_gauss_fl avg_return volatility g;
          price' = fmul price (fadd (Fin 1) random_factor)
      in path_loop_fl n avg_return volatility price' (path @ [price']) g')"

fun simulations_loop_fl ::
  "nat \<Rightarrow> int \<Rightarrow> fval \<Rightarrow> fval \<Rightarrow> fval \<Rightarrow> fval list list \<Rightarrow> real stream
     \<Rightarrow> fval list list \<times> real stream" where
  "simulations_loop_fl 0 days last_close_price avg_return volatility simulations_result g =
     (simulations_result, g)"
| "simulations_loop_fl (Suc n) days last_close_price avg_return volatility simulations_result g =
     (let (path, g') = path_loop_fl (nat days) avg_return volatility
                         last_close_price [last_close_price] g
      in simulations_loop_fl n days last_close_price avg_return volatility
           (simulations_result @ [path]) g')"

definition simulate_fl ::
  "fval \<Rightarrow> fval \<Rightarrow> fval \<Rightarrow> int \<Rightarrow> int \<Rightarrow> real stream \<Rightarrow> fval list list \<times> real stream" where
  "simulate_fl last_close_price avg_return volatility days simulations g =
     simulations_loop_fl (nat simulations) days last_close_price avg_return volatility [] g"

definition factor_fl :: "fval \<Rightarrow> fval \<Rightarrow> real \<Rightarrow> fval" where
  "factor_fl avg_return volatility z = fadd (Fin 1) (fadd avg_return (fmul (Fin z) volatility))"

text \<open>
  Two properties of a float: being finite and positive, and being neither negative nor
  NaN.
\<close>

fun fpositive :: "fval \<Rightarrow> bool" where
  "fpositive (Fin a) = (0 < a)"
| "fpositive x = False"

fun fnonneg :: "fval \<Rightarrow> bool" where
  "fnonneg (Fin a) = (0 \<le> a)"
| "fnonneg PInf = True"
| "fnonneg x = False"

section \<open>Properties of the simulation loops\<close>

text \<open>One iteration of each loop, with the local bindings unfolded.\<close>

lemma path_loop_step:
  "path_loop (Suc n) a v p path g =
     path_loop n a v (p * (1 + (a + shd g * v))) (path @ [p * (1 + (a + shd g * v))]) (stl g)"
  by (simp add: random_gauss_def Let_def)

lemma simulations_loop_step:
  "simulations_loop (Suc n) d l a v res g =
     simulations_loop n d l a v (res @ [fst (path_loop (nat d) a v l [l] g)])
       (snd (path_loop (nat d) a v l [l] g))"
  by (simp add: split_def Let_def)

declare path_loop.simps(2) [simp del] simulations_loop.simps(2) [simp del]

text \<open>The inner loop makes one draw per iteration and only appends to the path.\<close>

lemma path_loop_rng: "snd (path_loop n a v p path g) = sdrop n g"
  by (induction n arbitrary: p path g) (simp_all add: path_loop_step)

lemma path_loop_length: "length (fst (path_loop n a v p path g)) = length path + n"
  by (induction n arbitrary: p path g) (simp_all add: path_loop_step)

lemma path_loop_prefix: "take (length path) (fst (path_loop n a v p path g)) = path"
proof (induction n arbitrary: p path g)
  case 0
  show ?case by simp
next
  case (Suc n)
  let ?q = "p * (1 + (a + shd g * v))"
  have "take (length (path @ [?q])) (fst (path_loop n a v ?q (path @ [?q]) (stl g)))
        = path @ [?q]"
    by (rule Suc.IH)
  then have "take (length path)
               (take (length (path @ [?q])) (fst (path_loop n a v ?q (path @ [?q]) (stl g))))
             = path"
    by simp
  then show ?case by (simp add: path_loop_step min_def)
qed

lemma path_loop_first:
  assumes "path \<noteq> []"
  shows "fst (path_loop n a v p path g) ! 0 = path ! 0"
proof -
  have "take (length path) (fst (path_loop n a v p path g)) ! 0 = path ! 0"
    by (simp only: path_loop_prefix)
  with assms show ?thesis by (cases path) simp_all
qed

text \<open>The outer loop: generator state, size of the ensemble, a property of every path.\<close>

lemma simulations_loop_rng:
  "snd (simulations_loop n d l a v res g) = sdrop (n * nat d) g"
  by (induction n arbitrary: res g)
     (simp_all add: simulations_loop_step path_loop_rng add.commute)

lemma simulations_loop_length:
  "length (fst (simulations_loop n d l a v res g)) = length res + n"
  by (induction n arbitrary: res g) (simp_all add: simulations_loop_step)

lemma simulations_loop_all:
  assumes "\<forall>p\<in>set res. P p"
    and "\<And>g. P (fst (path_loop (nat d) a v l [l] g))"
  shows "\<forall>p\<in>set (fst (simulations_loop n d l a v res g)). P p"
  using assms(1)
proof (induction n arbitrary: res g)
  case 0
  then show ?case by simp
next
  case (Suc n)
  have "\<forall>p\<in>set (res @ [fst (path_loop (nat d) a v l [l] g)]). P p"
    using Suc.prems assms(2) by simp
  from Suc.IH [OF this] show ?case by (simp add: simulations_loop_step)
qed

text \<open>The paths depend only on the draws that the loops consume.\<close>

lemma path_loop_stake:
  "stake n g1 = stake n g2 \<Longrightarrow>
   fst (path_loop n a v p path g1) = fst (path_loop n a v p path g2)"
proof (induction n arbitrary: p path g1 g2)
  case 0
  show ?case by simp
next
  case (Suc n)
  from Suc.prems have h: "shd g1 = shd g2" and t: "stake n (stl g1) = stake n (stl g2)"
    by simp_all
  let ?q = "p * (1 + (a + shd g2 * v))"
  have "fst (path_loop n a v ?q (path @ [?q]) (stl g1)) =
        fst (path_loop n a v ?q (path @ [?q]) (stl g2))"
    using t by (rule Suc.IH)
  then show ?case by (simp only: path_loop_step h)
qed

lemma simulations_loop_stake:
  "stake (n * nat d) g1 = stake (n * nat d) g2 \<Longrightarrow>
   fst (simulations_loop n d l a v res g1) = fst (simulations_loop n d l a v res g2)"
proof (induction n arbitrary: res g1 g2)
  case 0
  show ?case by simp
next
  case (Suc n)
  let ?m = "nat d"
  have "stake ?m g1 @ stake (n * ?m) (sdrop ?m g1) = stake ?m g2 @ stake (n * ?m) (sdrop ?m g2)"
    using Suc.prems by (simp only: stake_add mult_Suc)
  moreover have "length (stake ?m g1) = length (stake ?m g2)"
    by (simp only: length_stake)
  ultimately have ht: "stake ?m g1 = stake ?m g2 \<and>
      stake (n * ?m) (sdrop ?m g1) = stake (n * ?m) (sdrop ?m g2)"
    using append_eq_append_conv by blast
  from ht have h: "stake ?m g1 = stake ?m g2" by (rule conjunct1)
  from ht have t: "stake (n * ?m) (sdrop ?m g1) = stake (n * ?m) (sdrop ?m g2)"
    by (rule conjunct2)
  have p: "fst (path_loop ?m a v l [l] g1) = fst (path_loop ?m a v l [l] g2)"
    using h by (rule path_loop_stake)
  have "fst (simulations_loop n d l a v (res @ [fst (path_loop ?m a v l [l] g2)]) (sdrop ?m g1)) =
        fst (simulations_loop n d l a v (res @ [fst (path_loop ?m a v l [l] g2)]) (sdrop ?m g2))"
    using t by (rule Suc.IH)
  then show ?case by (simp only: simulations_loop_step path_loop_rng p)
qed

text \<open>With mean 0 and volatility 0 every draw is 0 and the price never moves.\<close>

lemma path_loop_flat: "fst (path_loop n 0 0 p path g) = path @ replicate n p"
proof (induction n arbitrary: path g)
  case 0
  show ?case by simp
next
  case (Suc n)
  have q: "p * (1 + (0 + shd g * 0)) = p" by simp
  have "fst (path_loop (Suc n) 0 0 p path g) = fst (path_loop n 0 0 p (path @ [p]) (stl g))"
    by (simp only: path_loop_step q)
  also have "\<dots> = (path @ [p]) @ replicate n p" by (rule Suc.IH)
  also have "\<dots> = path @ replicate (Suc n) p" by simp
  finally show ?case .
qed

lemma simulations_loop_flat:
  "fst (simulations_loop n d l 0 0 res g) = res @ replicate n (l # replicate (nat d) l)"
proof (induction n arbitrary: res g)
  case 0
  show ?case by simp
next
  case (Suc n)
  let ?path = "l # replicate (nat d) l"
  have p: "fst (path_loop (nat d) 0 0 l [l] g) = ?path"
    by (simp add: path_loop_flat)
  have "fst (simulations_loop (Suc n) d l 0 0 res g) =
        fst (simulations_loop n d l 0 0 (res @ [?path]) (snd (path_loop (nat d) 0 0 l [l] g)))"
    by (simp only: simulations_loop_step p)
  also have "\<dots> = (res @ [?path]) @ replicate n ?path" by (rule Suc.IH)
  also have "\<dots> = res @ replicate (Suc n) ?path" by simp
  finally show ?case .
qed

section \<open>Properties of the Python primitives\<close>

text \<open>A comprehension none of whose elements raises yields the list of their values.\<close>

lemma collect_map_Inr:
  "\<forall>i\<in>set xs. h i = Inr (f i) \<Longrightarrow> collect (map h xs) = Inr (map f xs)"
  by (induction xs) simp_all

lemma upt_from_1: "[1..<n] = map Suc [0..<n - 1]"
  by (cases n) (simp_all add: map_Suc_upt del: upt_Suc)

text \<open>\<^verbatim>\<open>sum\<close>, \<^verbatim>\<open>max\<close> and \<^verbatim>\<open>min\<close> compute the sum, the greatest and the least element.\<close>

lemma py_sum_fold: "fold (\<lambda>x acc. acc + x) xs a = a + sum_list xs"
  by (induction xs arbitrary: a) (simp_all add: add.assoc)

lemma py_sum_eq: "py_sum xs = sum_list xs"
  by (simp add: py_sum_def py_sum_fold)

lemma py_max_eq: "xs \<noteq> [] \<Longrightarrow> py_max xs = Inr (Max (set xs))"
  by (cases xs) (simp_all add: py_max_def Max.set_eq_fold del: set_simps)

lemma py_min_eq: "xs \<noteq> [] \<Longrightarrow> py_min xs = Inr (Min (set xs))"
  by (cases xs) (simp_all add: py_min_def Min.set_eq_fold del: set_simps)

section \<open>Properties of the three functions\<close>

text \<open>
  With at least two rows and no zero close price before the last row, no division
  raises and the series has one element per pair of consecutive rows.
\<close>

lemma get_daily_returns_ok:
  assumes "2 \<le> length rows"
    and "\<forall>i<length rows - 1. snd (rows ! i) \<noteq> 0"
  shows "get_daily_returns rows w =
           (Inr (Some (map (\<lambda>i. (snd (rows ! (i + 1)) - snd (rows ! i)) / snd (rows ! i))
                           [0..<length rows - 1])), w)"
proof -
  let ?h = "\<lambda>i. py_truediv (snd (rows ! i) - snd (rows ! (i - 1))) (snd (rows ! (i - 1)))"
  let ?f = "\<lambda>i. (snd (rows ! (i + 1)) - snd (rows ! i)) / snd (rows ! i)"
  have "map ?h [1..<length rows] = map (\<lambda>i. ?h (Suc i)) [0..<length rows - 1]"
    by (simp only: upt_from_1 [of "length rows"] map_map comp_def)
  moreover have "\<forall>i\<in>set [0..<length rows - 1]. ?h (Suc i) = Inr (?f i)"
    using assms(2) by (simp add: py_truediv_def)
  then have "collect (map (\<lambda>i. ?h (Suc i)) [0..<length rows - 1]) = Inr (map ?f [0..<length rows - 1])"
    by (rule collect_map_Inr)
  ultimately have "collect (map ?h [1..<length rows]) = Inr (map ?f [0..<length rows - 1])"
    by (simp only:)
  with assms(1) show ?thesis by (simp add: get_daily_returns_def)
qed

text \<open>Lines 74 and 75 on a non-empty series.\<close>

lemma return_statistics_ok:
  assumes "returns \<noteq> []"
  shows "return_statistics returns =
           Inr (sum_list returns / real (length returns),
                (Max (set returns) - Min (set returns)) / 2)"
  using assms by (simp add: return_statistics_def py_truediv_def py_sum_eq py_max_eq py_min_eq)

text \<open>With no day or no simulation to run, the loops make no draw.\<close>

lemma simulations_loop_no_days:
  "nat d = 0 \<Longrightarrow> simulations_loop n d l a v res g = (res @ replicate n [l], g)"
proof (induction n arbitrary: res)
  case 0
  show ?case by simp
next
  case (Suc n)
  have "simulations_loop (Suc n) d l a v res g = simulations_loop n d l a v (res @ [[l]]) g"
    using Suc.prems by (simp add: simulations_loop_step)
  also have "\<dots> = ((res @ [[l]]) @ replicate n [l], g)"
    using Suc.prems by (rule Suc.IH)
  also have "(res @ [[l]]) @ replicate n [l] = res @ replicate (Suc n) [l]" by simp
  finally show ?case .
qed

lemma simulate_degenerate:
  assumes "days \<le> 0 \<or> simulations \<le> 0"
  shows "simulate l a v days simulations g = (replicate (nat simulations) [l], g)"
proof (cases "simulations \<le> 0")
  case True
  then show ?thesis by (simp add: simulate_def)
next
  case False
  with assms have "nat days = 0" by simp
  then show ?thesis by (simp add: simulate_def simulations_loop_no_days)
qed

text \<open>
  The exceptions that can leave \<^verbatim>\<open>monte_carlo_simulation\<close>: a comprehension raises
  what one of its elements raises.
\<close>

lemma collect_Inl: "collect rs = Inl e \<Longrightarrow> Inl e \<in> set rs"
  by (induction rs rule: collect.induct) (auto split: sum.splits)

lemma get_daily_returns_errors:
  "fst (get_daily_returns rows w) = Inl e \<Longrightarrow> e = ZeroDivisionError"
  by (auto simp: get_daily_returns_def py_truediv_def split: if_splits sum.splits
           dest!: collect_Inl)

lemma return_statistics_errors:
  "return_statistics returns = Inl e \<Longrightarrow> e = ZeroDivisionError \<or> e = ValueError"
  by (auto simp: return_statistics_def py_truediv_def py_max_def py_min_def
           split: if_splits sum.splits list.splits)

lemma monte_carlo_simulation_errors:
  assumes "fst (monte_carlo_simulation rows last_row days simulations w) = Inl e"
  shows "e = ZeroDivisionError \<or> e = ValueError \<or> e = TypeError"
proof (cases "get_daily_returns rows w")
  case (Pair res w1)
  show ?thesis
  proof (cases res)
    case (Inl e')
    with Pair assms have "e = e'" by (simp add: monte_carlo_simulation_def)
    moreover from Pair Inl have "fst (get_daily_returns rows w) = Inl e'" by simp
    ultimately show ?thesis by (auto dest: get_daily_returns_errors)
  next
    case (Inr r)
    show ?thesis
    proof (cases r)
      case None
      with Pair Inr assms show ?thesis by (simp add: monte_carlo_simulation_def)
    next
      case (Some returns)
      show ?thesis
      proof (cases "returns = []")
        case True
        with Pair Inr Some assms show ?thesis by (simp add: monte_carlo_simulation_def)
      next
        case False
        show ?thesis
        proof (cases "return_statistics returns")
          case (Inl e')
          with Pair Inr Some False assms have "e = e'" by (simp add: monte_carlo_simulation_def)
          with Inl show ?thesis by (auto dest: return_statistics_errors)
        next
          case st: (Inr stats)
          with Pair Inr Some False assms show ?thesis
            by (cases stats; cases last_row)
               (simp_all add: monte_carlo_simulation_def split_def Let_def)
        qed
      qed
    qed
  qed
qed

section \<open>Properties of the binary64 reading\<close>

text \<open>
  Rounding a concrete number is evaluated by unfolding the definitions; the bit length
  of a numeral is computed by halving.
\<close>

lemma bitlen_numeral_eval:
  "bitlen (numeral n) = bitlen (numeral n div 2) + 1"
  "bitlen 1 = 1"
  by (subst compute_bitlen, simp)+

lemmas fround_eval = fround_def quantum_def fexp_def round_half_even_def Let_def
  bitlen_numeral_eval power_int_minus

text \<open>
  Rounding keeps the sign: a non-negative number rounds to a non-negative float or to
  \<open>+inf\<close>.
\<close>

lemma round_half_even_nonneg: "0 \<le> t \<Longrightarrow> 0 \<le> round_half_even t"
  by (simp add: round_half_even_def Let_def)

lemma quantum_pos: "0 < quantum x"
  by (simp add: quantum_def)

lemma fround_nonneg: "0 \<le> x \<Longrightarrow> fnonneg (fround x)"
proof (cases "x = 0")
  case True
  then show ?thesis by (simp add: fround_def)
next
  case False
  assume "0 \<le> x"
  with False have pos: "0 < x" by simp
  have "0 \<le> \<bar>x\<bar> / quantum x" using quantum_pos [of x] by simp
  then have "0 \<le> round_half_even (\<bar>x\<bar> / quantum x)" by (rule round_half_even_nonneg)
  then have "0 \<le> real_of_int (round_half_even (\<bar>x\<bar> / quantum x)) * quantum x"
    using quantum_pos [of x] by simp
  then show ?thesis using pos by (simp add: fround_def Let_def)
qed

lemma fmul_nonneg: "fnonneg p \<Longrightarrow> fpositive f \<Longrightarrow> fnonneg (fmul p f)"
  by (cases p; cases f) (simp_all add: fround_nonneg)

text \<open>
One iteration of each binary64 loop, and the draws consumed.
\<close>

lemma path_loop_fl_step:
  "path_loop_fl (Suc n) a v p path g =
     path_loop_fl n a v (fmul p (factor_fl a v (shd g)))
       (path @ [fmul p (factor_fl a v (shd g))]) (stl g)"
  by (simp add: random_gauss_fl_def factor_fl_def Let_def)

lemma simulations_loop_fl_step:
  "simulations_loop_fl (Suc n) d l a v res g =
     simulations_loop_fl n d l a v (res @ [fst (path_loop_fl (nat d) a v l [l] g)])
       (snd (path_loop_fl (nat d) a v l [l] g))"
  by (simp add: split_def Let_def)

declare path_loop_fl.simps(2) [simp del] simulations_loop_fl.simps(2) [simp del]

lemma path_loop_fl_rng: "snd (path_loop_fl n a v p path g) = sdrop n g"
  by (induction n arbitrary: p path g) (simp_all add: path_loop_fl_step)

text \<open>
  A positive finite factor keeps a price that is not negative and not NaN in that state.
\<close>

lemma path_loop_fl_nonneg:
  "fnonneg p \<Longrightarrow> \<forall>x\<in>set path. fnonneg x \<Longrightarrow> \<forall>i<n. fpositive (factor_fl a v (g !! i)) \<Longrightarrow>
   \<forall>x\<in>set (fst (path_loop_fl n a v p path g)). fnonneg x"
proof (induction n arbitrary: p path g)
  case 0
  then show ?case by simp
next
  case (Suc n)
  let ?q = "fmul p (factor_fl a v (shd g))"
  have "fpositive (factor_fl a v (g !! 0))" using Suc.prems(3) by blast
  then have q: "fnonneg ?q" using Suc.prems(1) by (simp add: fmul_nonneg)
  have r: "\<forall>x\<in>set (path @ [?q]). fnonneg x" using q Suc.prems(2) by simp
  have t: "\<forall>i<n. fpositive (factor_fl a v (stl g !! i))"
  proof (intro allI impI)
    fix i assume "i < n"
    then have "Suc i < Suc n" by simp
    with Suc.prems(3) have "fpositive (factor_fl a v (g !! Suc i))" by blast
    then show "fpositive (factor_fl a v (stl g !! i))" by simp
  qed
  from Suc.IH [OF q r t] show ?case by (simp add: path_loop_fl_step)
qed

lemma simulations_loop_fl_nonneg:
  "fnonneg l \<Longrightarrow> \<forall>p\<in>set res. \<forall>x\<in>set p. fnonneg x \<Longrightarrow>
   \<forall>i<n * nat d. fpositive (factor_fl a v (g !! i)) \<Longrightarrow>
   \<forall>p\<in>set (fst (simulations_loop_fl n d l a v res g)). \<forall>x\<in>set p. fnonneg x"
proof (induction n arbitrary: res g)
  case 0
  then show ?case by simp
next
  case (Suc n)
  let ?m = "nat d"
  let ?path = "fst (path_loop_fl ?m a v l [l] g)"
  have "\<forall>i<?m. fpositive (factor_fl a v (g !! i))" using Suc.prems(3) by simp
  then have "\<forall>x\<in>set ?path. fnonneg x"
    using Suc.prems(1) by (intro path_loop_fl_nonneg) simp_all
  then have r: "\<forall>p\<in>set (res @ [?path]). \<forall>x\<in>set p. fnonneg x"
    using Suc.prems(2) by simp
  have t: "\<forall>i<n * ?m. fpositive (factor_fl a v (sdrop ?m g !! i))"
  proof (intro allI impI)
    fix i assume "i < n * ?m"
    then have "?m + i < Suc n * ?m" by simp
    then have "fpositive (factor_fl a v (g !! (?m + i)))" using Suc.prems(3) by blast
    then show "fpositive (factor_fl a v (sdrop ?m g !! i))" by (simp add: sdrop_snth)
  qed
  from Suc.IH [OF Suc.prems(1) r t] show ?case
    by (simp add: simulations_loop_fl_step path_loop_fl_rng)
qed

text \<open>
  A positive price can reach 0.0: the smallest positive float times one half is a tie
  between 0 and itself and rounds to 0.
\<close>

lemma simulate_fl_underflow:
  "fst (simulate_fl (Fin (1 / 2 ^ 1074)) (Fin (- 1 / 2)) (Fin 0) 1 1 g)
     = [[Fin (1 / 2 ^ 1074), Fin 0]]"
  by (simp add: simulate_fl_def simulations_loop_fl_step path_loop_fl_step factor_fl_def
        fround_eval)

text \<open>
  \<^verbatim>\<open>compute_risk_metrics\<close> in binary64: the empty list and the store are as in the
  first reading; deviations beyond the range of a square raise \<^verbatim>\<open>OverflowError\<close>;
  on prices all equal to 100 the mean is exact, the volatility is 0 and the guard of
  line 99 returns 0.
\<close>

lemma compute_risk_metrics_fl_empty:
  assumes "final_prices < length s" and "s ! final_prices = []"
  shows "fst (compute_risk_metrics_fl s final_prices r) = Inl IndexError
         \<and> take (length s) (snd (compute_risk_metrics_fl s final_prices r)) = s"
  using assms
  by (simp add: compute_risk_metrics_fl_def py_sorted_def py_int_def py_getitem_def
      fround_eval)

lemma compute_risk_metrics_fl_frame:
  assumes "final_prices < length s"
  shows "snd (compute_risk_metrics_fl s final_prices r) ! final_prices = s ! final_prices
         \<and> take (length s) (snd (compute_risk_metrics_fl s final_prices r)) = s"
  using assms
  by (simp add: compute_risk_metrics_fl_def py_sorted_def Let_def nth_append)

lemma compute_risk_metrics_fl_overflow:
  "fst (compute_risk_metrics_fl [[2 ^ 600, 3 * 2 ^ 600]] 0 (5764607523034235 / 576460752303423488))
     = Inl OverflowError"
  by (simp add: compute_risk_metrics_fl_def py_sorted_def fsum_def fsub_def py_int_def
        py_getitem_def fround_eval)

lemma compute_risk_metrics_fl_all_100:
  "fst (compute_risk_metrics_fl [[100, 100, 100]] 0 (5764607523034235 / 576460752303423488))
     = Inr (100, Fin 100, Fin 0)"
  by (simp add: compute_risk_metrics_fl_def py_sorted_def fsum_def fsub_def py_int_def
        py_getitem_def fround_eval)

lemma sqrt_2_112: "sqrt (1 / 5192296858534827628530496329220096) = 1 / 72057594037927936"
  by (rule real_sqrt_unique) (simp_all add: power2_eq_square)

section \<open>The claims\<close>

text \<open>
  C1 fails on the code. The claim asks for a Sharpe ratio of 0 when all prices are equal,
  and line 99 tests \<^verbatim>\<open>volatility != 0\<close> for that purpose. On three prices equal to the
  float 0.1 the sum rounds to 0.30000000000000004 and the mean to 0.10000000000000002,
  so every deviation is \<open>-2^(-56)\<close>, the volatility is \<open>2^(-56)\<close> and not 0, the test
  passes, and with the float 0.01 as risk-free rate the function returns the Sharpe ratio
  \<open>(0.10000000000000002 - 0.01) / 2^(-56) = 6485183463413516\<close>. The three numerals
  below are the floats 0.1 (the price), 0.01 (the rate) and 0.10000000000000002 (the mean).
\<close>

theorem compute_risk_metrics_equal_prices:
  "fst (compute_risk_metrics_fl
          [[3602879701896397 / 36028797018963968, 3602879701896397 / 36028797018963968,
            3602879701896397 / 36028797018963968]] 0
          (5764607523034235 / 576460752303423488))
     = Inr (3602879701896397 / 36028797018963968,
            Fin (7205759403792795 / 72057594037927936),
            Fin 6485183463413516)"
  by (simp add: compute_risk_metrics_fl_def py_sorted_def fsum_def fsub_def py_int_def
        py_getitem_def fround_eval sqrt_2_112)

text \<open>
  C2. For every \<open>days \<ge> 0\<close>, every start price, every pair of statistics, every
  \<open>simulations\<close> count and every state of the generator, each path of the ensemble
  built by lines 81 to 91 has exactly \<open>days + 1\<close> elements, and its element 0 is the
  start price.
\<close>

theorem simulate_path_shape:
  assumes "0 \<le> days"
    and "path \<in> set (fst (simulate start_price avg_return volatility days simulations g))"
  shows "int (length path) = days + 1 \<and> path ! 0 = start_price"
proof -
  let ?P = "\<lambda>p. int (length p) = days + 1 \<and> p ! 0 = start_price"
  have "\<forall>p\<in>set (fst (simulations_loop (nat simulations) days start_price
                        avg_return volatility [] g)). ?P p"
  proof (rule simulations_loop_all)
    show "\<forall>p\<in>set []. ?P p" by simp
  next
    fix g'
    show "?P (fst (path_loop (nat days) avg_return volatility start_price [start_price] g'))"
      using assms(1) by (simp add: path_loop_length path_loop_first)
  qed
  with assms(2) show ?thesis by (simp add: simulate_def)
qed

theorem simulate_path_shape_witness:
  "(0::int) \<le> 2 \<and> [100, 150, 150] \<in> set (fst (simulate 100 0 (1/2) 2 1 (1 ## sconst 0)))
   \<and> int (length [100, 150, 150 :: real]) = 2 + 1 \<and> [100, 150, 150 :: real] ! 0 = 100"
proof -
  have m: "[100, 150, 150] \<in> set (fst (simulate 100 0 (1/2) 2 1 (1 ## sconst 0)))"
    by (simp add: simulate_def path_loop_step simulations_loop_step eval_nat_numeral)
  show ?thesis
    using m simulate_path_shape [of 2 "[100, 150, 150]" 100 0 "1/2" 1 "1 ## sconst 0"] by simp
qed

text \<open>
  C3. For a price history of at least two records whose close prices are not zero,
  \<^verbatim>\<open>get_daily_returns\<close> returns a series with one element fewer than the history,
  whose element \<open>i\<close> is \<open>(close (i + 1) - close i) / close i\<close>; on exactly two records
  the series is the single element \<open>(p1 - p0) / p0\<close>. Nothing is printed.
\<close>

theorem get_daily_returns_series:
  assumes "2 \<le> length rows"
    and "\<forall>r\<in>set rows. snd r \<noteq> 0"
  shows "\<exists>returns. get_daily_returns rows w = (Inr (Some returns), w)
           \<and> length returns = length rows - 1
           \<and> (\<forall>i<length rows - 1.
                 returns ! i = (snd (rows ! (i + 1)) - snd (rows ! i)) / snd (rows ! i))
           \<and> (\<forall>d0 p0 d1 p1. rows = [(d0, p0), (d1, p1)] \<longrightarrow> returns = [(p1 - p0) / p0])"
proof -
  let ?f = "\<lambda>i. (snd (rows ! (i + 1)) - snd (rows ! i)) / snd (rows ! i)"
  let ?returns = "map ?f [0..<length rows - 1]"
  have nz: "\<forall>i<length rows - 1. snd (rows ! i) \<noteq> 0"
    using assms(2) by simp
  have a: "get_daily_returns rows w = (Inr (Some ?returns), w)"
    using assms(1) nz by (rule get_daily_returns_ok)
  have b: "length ?returns = length rows - 1" by simp
  have c: "\<forall>i<length rows - 1. ?returns ! i = ?f i" by simp
  have d: "\<forall>d0 p0 d1 p1. rows = [(d0, p0), (d1, p1)] \<longrightarrow> ?returns = [(p1 - p0) / p0]"
    by simp
  from a b c d show ?thesis by blast
qed

theorem get_daily_returns_series_witness:
  "get_daily_returns [(''2024-01-02'', 100), (''2024-01-03'', 110)] \<lparr>stdout = [], rng = sconst 0\<rparr>
     = (Inr (Some [1 / 10]), \<lparr>stdout = [], rng = sconst 0\<rparr>)"
proof -
  let ?rows = "[(''2024-01-02'', 100 :: real), (''2024-01-03'', 110)]"
  have h1: "2 \<le> length ?rows" by simp
  have h2: "\<forall>r\<in>set ?rows. snd r \<noteq> 0" by simp
  from get_daily_returns_series [OF h1 h2, of "\<lparr>stdout = [], rng = sconst 0\<rparr>"]
  obtain returns where
    r: "get_daily_returns ?rows \<lparr>stdout = [], rng = sconst 0\<rparr> = (Inr (Some returns), \<lparr>stdout = [], rng = sconst 0\<rparr>)"
    and p: "\<forall>d0 p0 d1 p1. ?rows = [(d0, p0), (d1, p1)] \<longrightarrow> returns = [(p1 - p0) / p0]"
    by blast
  from p have "returns = [(110 - 100) / 100]" by blast
  then have "returns = [1 / 10]" by simp
  with r show ?thesis by simp
qed

text \<open>
  C4. For a non-empty return series, lines 74 and 75 raise nothing and the volatility
  handed to the simulation is half the range of the series: it is never negative, and
  it is 0 exactly when the greatest and the least return coincide.
\<close>

theorem return_statistics_dispersion:
  assumes "returns \<noteq> []"
  shows "\<exists>avg_return volatility.
           return_statistics returns = Inr (avg_return, volatility)
           \<and> volatility = (Max (set returns) - Min (set returns)) / 2
           \<and> 0 \<le> volatility
           \<and> (volatility = 0 \<longleftrightarrow> Max (set returns) = Min (set returns))"
proof -
  have "Min (set returns) \<le> Max (set returns)"
    using assms by (simp add: Min_le_iff)
  then have "0 \<le> (Max (set returns) - Min (set returns)) / 2" by simp
  moreover have "((Max (set returns) - Min (set returns)) / 2 = 0)
                   \<longleftrightarrow> Max (set returns) = Min (set returns)" by simp
  ultimately show ?thesis
    using return_statistics_ok [OF assms] by blast
qed

theorem return_statistics_dispersion_witness:
  "[1 / 2, - 1 / 2 :: real] \<noteq> []
   \<and> return_statistics [1 / 2, - 1 / 2] = Inr (0, 1 / 2)"
proof -
  have h: "[1 / 2, - 1 / 2 :: real] \<noteq> []" by simp
  from return_statistics_dispersion [OF h]
  obtain a v where r: "return_statistics [1 / 2, - 1 / 2] = Inr (a, v)"
    and v: "v = (Max (set [1 / 2, - 1 / 2 :: real]) - Min (set [1 / 2, - 1 / 2])) / 2"
    by blast
  have "return_statistics [1 / 2, - 1 / 2] = Inr (0, 1 / 2)"
    by (simp add: return_statistics_def py_truediv_def py_sum_def py_max_def py_min_def)
  with r v show ?thesis by simp
qed

text \<open>
  C5. Two runs of lines 81 to 91 with the same start price, statistics, \<open>days\<close> and
  \<open>simulations\<close> build the same ensemble, element by element, as soon as their
  generators agree on the \<open>simulations * days\<close> draws that the loops consume; two
  generators seeded identically agree on every draw. With mean 0 and volatility 0, start
  price 100, 10 days and 5 simulations the ensemble is 5 paths of 11 elements, all 100,
  whatever the generator.
\<close>

theorem simulate_deterministic:
  "(stake (nat simulations * nat days) g1 = stake (nat simulations * nat days) g2 \<longrightarrow>
      fst (simulate start_price avg_return volatility days simulations g1) =
      fst (simulate start_price avg_return volatility days simulations g2))
   \<and> fst (simulate 100 0 0 10 5 g) = replicate 5 (replicate 11 100)"
proof
  show "stake (nat simulations * nat days) g1 = stake (nat simulations * nat days) g2 \<longrightarrow>
      fst (simulate start_price avg_return volatility days simulations g1) =
      fst (simulate start_price avg_return volatility days simulations g2)"
  proof
    assume "stake (nat simulations * nat days) g1 = stake (nat simulations * nat days) g2"
    then have "fst (simulations_loop (nat simulations) days start_price avg_return
                      volatility [] g1) =
               fst (simulations_loop (nat simulations) days start_price avg_return
                      volatility [] g2)"
      by (rule simulations_loop_stake)
    then show "fst (simulate start_price avg_return volatility days simulations g1) =
               fst (simulate start_price avg_return volatility days simulations g2)"
      by (simp only: simulate_def)
  qed
  have a: "fst (simulate 100 0 0 10 5 g) = replicate 5 (100 # replicate 10 100)"
    by (simp add: simulate_def simulations_loop_flat)
  have b: "replicate 11 (100::real) = 100 # replicate 10 100"
    by (simp add: eval_nat_numeral)
  show "fst (simulate 100 0 0 10 5 g) = replicate 5 (replicate 11 100)"
    by (simp only: a b)
qed

theorem simulate_deterministic_witness:
  "stake (nat 2 * nat 1) (1 ## 2 ## sconst (0::real)) = stake (nat 2 * nat 1) (1 ## 2 ## sconst 5)
   \<and> fst (simulate 100 0 (1/2) 1 2 (1 ## 2 ## sconst 0)) = [[100, 150], [100, 200]]
   \<and> fst (simulate 100 0 (1/2) 1 2 (1 ## 2 ## sconst 5)) = [[100, 150], [100, 200]]"
proof -
  have s: "stake (nat 2 * nat 1) (1 ## 2 ## sconst (0::real)) = stake (nat 2 * nat 1) (1 ## 2 ## sconst 5)"
    by (simp add: eval_nat_numeral)
  have e: "fst (simulate 100 0 (1/2) 1 2 (1 ## 2 ## sconst 0)) = [[100, 150], [100, 200]]"
    by (simp add: simulate_def path_loop_step simulations_loop_step eval_nat_numeral)
  from s e simulate_deterministic [of 2 1 "1 ## 2 ## sconst 0" "1 ## 2 ## sconst 5" 100 0 "1/2"]
  show ?thesis by simp
qed

text \<open>
  C6, as stated, fails. With \<open>days = 0\<close> the call returns an ensemble of paths that
  hold the start price only; with a negative start price it runs the simulation and
  consumes a draw. No \<^verbatim>\<open>InvalidParameterError\<close> is raised.
\<close>

theorem monte_carlo_simulation_validation_counterexample:
  "monte_carlo_simulation [(''2024-01-02'', 100), (''2024-01-03'', 110)] (Some 110) 0 2
      \<lparr>stdout = [], rng = sconst 0\<rparr>
     = (Inr (Some [[110], [110]]), \<lparr>stdout = [], rng = sconst 0\<rparr>)
   \<and> monte_carlo_simulation [(''2024-01-02'', - 100), (''2024-01-03'', - 110)] (Some (- 110)) 1 1
      \<lparr>stdout = [], rng = 1 ## sconst 0\<rparr>
     = (Inr (Some [[- 110, - 121]]), \<lparr>stdout = [], rng = sconst 0\<rparr>)"
proof
  show "monte_carlo_simulation [(''2024-01-02'', 100), (''2024-01-03'', 110)] (Some 110) 0 2
      \<lparr>stdout = [], rng = sconst 0\<rparr>
     = (Inr (Some [[110], [110]]), \<lparr>stdout = [], rng = sconst 0\<rparr>)"
    by (simp add: monte_carlo_simulation_def get_daily_returns_def return_statistics_def
        py_truediv_def py_sum_def py_max_def py_min_def simulate_def
        simulations_loop_step eval_nat_numeral)
  show "monte_carlo_simulation [(''2024-01-02'', - 100), (''2024-01-03'', - 110)] (Some (- 110)) 1 1
      \<lparr>stdout = [], rng = 1 ## sconst 0\<rparr>
     = (Inr (Some [[- 110, - 121]]), \<lparr>stdout = [], rng = sconst 0\<rparr>)"
    by (simp add: monte_carlo_simulation_def get_daily_returns_def return_statistics_def
        py_truediv_def py_sum_def py_max_def py_min_def simulate_def
        simulations_loop_step path_loop_step eval_nat_numeral)
qed

text \<open>
  C6, as amended. \<^verbatim>\<open>monte_carlo_simulation\<close> validates none of its parameters.
  Whatever the history, the start price, \<open>days\<close> and \<open>simulations\<close>, it never fails with
  \<^verbatim>\<open>InvalidParameterError\<close>. On a history of at least two records in which no close
  price that is divided by is zero, it does not fail at all, for any start price (zero and
  negative included), any \<open>days\<close> and any \<open>simulations\<close>: it returns the ensemble of
  lines 81 to 91, of \<open>max simulations 0\<close> paths. When \<open>days\<close> or \<open>simulations\<close> is zero
  or negative, each of these paths holds the start price only, nothing is printed and the
  generator is left as it was.
\<close>

theorem monte_carlo_simulation_no_validation:
  "fst (monte_carlo_simulation rows last_row days simulations w) \<noteq> Inl InvalidParameterError
   \<and> (2 \<le> length rows \<and> (\<forall>i<length rows - 1. snd (rows ! i) \<noteq> 0) \<longrightarrow>
        (\<exists>avg_return volatility.
            monte_carlo_simulation rows (Some start_price) days simulations w =
              (Inr (Some (fst (simulate start_price avg_return volatility days simulations (rng w)))),
               w\<lparr>rng := snd (simulate start_price avg_return volatility days simulations (rng w))\<rparr>)
            \<and> length (fst (simulate start_price avg_return volatility days simulations (rng w)))
                = nat simulations)
        \<and> (days \<le> 0 \<or> simulations \<le> 0 \<longrightarrow>
              monte_carlo_simulation rows (Some start_price) days simulations w =
                (Inr (Some (replicate (nat simulations) [start_price])), w)))"
proof (intro conjI impI)
  show "fst (monte_carlo_simulation rows last_row days simulations w) \<noteq> Inl InvalidParameterError"
    using monte_carlo_simulation_errors [of rows last_row days simulations w InvalidParameterError]
    by auto
next
  assume h: "2 \<le> length rows \<and> (\<forall>i<length rows - 1. snd (rows ! i) \<noteq> 0)"
  let ?returns = "map (\<lambda>i. (snd (rows ! (i + 1)) - snd (rows ! i)) / snd (rows ! i))
                      [0..<length rows - 1]"
  let ?avg = "sum_list ?returns / real (length ?returns)"
  let ?vol = "(Max (set ?returns) - Min (set ?returns)) / 2"
  have g: "get_daily_returns rows w = (Inr (Some ?returns), w)"
    using h by (intro get_daily_returns_ok) simp_all
  have ne: "?returns \<noteq> []" using h by simp
  have st: "return_statistics ?returns = Inr (?avg, ?vol)"
    using ne by (rule return_statistics_ok)
  have run: "monte_carlo_simulation rows (Some start_price) days simulations w =
              (Inr (Some (fst (simulate start_price ?avg ?vol days simulations (rng w)))),
               w\<lparr>rng := snd (simulate start_price ?avg ?vol days simulations (rng w))\<rparr>)"
    unfolding monte_carlo_simulation_def g
    by (simp only: prod.case sum.case option.case ne if_False st Let_def) (simp add: split_def)
  have len: "length (fst (simulate start_price ?avg ?vol days simulations (rng w)))
               = nat simulations"
    by (simp add: simulate_def simulations_loop_length)
  from run len show "\<exists>avg_return volatility.
            monte_carlo_simulation rows (Some start_price) days simulations w =
              (Inr (Some (fst (simulate start_price avg_return volatility days simulations (rng w)))),
               w\<lparr>rng := snd (simulate start_price avg_return volatility days simulations (rng w))\<rparr>)
            \<and> length (fst (simulate start_price avg_return volatility days simulations (rng w)))
                = nat simulations"
    by blast
  assume d: "days \<le> 0 \<or> simulations \<le> 0"
  show "monte_carlo_simulation rows (Some start_price) days simulations w =
                (Inr (Some (replicate (nat simulations) [start_price])), w)"
    unfolding run by (simp add: simulate_degenerate [OF d])
qed

theorem monte_carlo_simulation_no_validation_witness:
  "monte_carlo_simulation [(''2024-01-02'', 100), (''2024-01-03'', 0)] (Some 0) 1 1
      \<lparr>stdout = [], rng = 1 ## sconst 0\<rparr>
     = (Inr (Some [[0, 0]]), \<lparr>stdout = [], rng = sconst 0\<rparr>)
   \<and> monte_carlo_simulation [(''2024-01-02'', 100), (''2024-01-03'', 0)] (Some 0) (- 1) 3
      \<lparr>stdout = [], rng = 1 ## sconst 0\<rparr>
     = (Inr (Some [[0], [0], [0]]), \<lparr>stdout = [], rng = 1 ## sconst 0\<rparr>)"
proof -
  let ?rows = "[(''2024-01-02'', 100 :: real), (''2024-01-03'', 0)]"
  let ?w = "\<lparr>stdout = [], rng = 1 ## sconst (0 :: real)\<rparr>"
  have h: "2 \<le> length ?rows \<and> (\<forall>i<length ?rows - 1. snd (?rows ! i) \<noteq> 0)" by simp
  have a: "monte_carlo_simulation ?rows (Some 0) 1 1 ?w
             = (Inr (Some [[0, 0]]), \<lparr>stdout = [], rng = sconst 0\<rparr>)"
    by (simp add: monte_carlo_simulation_def get_daily_returns_def return_statistics_def
        py_truediv_def py_sum_def py_max_def py_min_def simulate_def
        simulations_loop_step path_loop_step eval_nat_numeral)
  have d: "(- 1 :: int) \<le> 0 \<or> (3 :: int) \<le> 0" by simp
  from monte_carlo_simulation_no_validation [of ?rows "Some 0" "- 1" 3 ?w 0] h d
  have b: "monte_carlo_simulation ?rows (Some 0) (- 1) 3 ?w
             = (Inr (Some (replicate (nat 3) [0])), ?w)"
    by blast
  from a b show ?thesis by (simp add: eval_nat_numeral)
qed

text \<open>
  C7, as stated, fails. On the empty list the lookup of line 96 raises
  \<^verbatim>\<open>IndexError\<close>, not \<^verbatim>\<open>InvalidParameterError\<close>.
\<close>

theorem compute_risk_metrics_empty_counterexample:
  "fst (compute_risk_metrics [[]] 0 (1 / 100)) = Inl IndexError
   \<and> fst (compute_risk_metrics [[]] 0 (1 / 100)) \<noteq> Inl InvalidParameterError"
  by (simp add: compute_risk_metrics_def py_sorted_def py_int_def py_getitem_def Let_def)

text \<open>
  C7, as amended. On the empty list \<^verbatim>\<open>compute_risk_metrics\<close> fails with
  \<^verbatim>\<open>IndexError\<close>, raised by the lookup in the sorted copy, and every list object
  that existed before the call is unchanged.
\<close>

theorem compute_risk_metrics_empty:
  assumes "final_prices < length s" and "s ! final_prices = []"
  shows "fst (compute_risk_metrics s final_prices r) = Inl IndexError
         \<and> take (length s) (snd (compute_risk_metrics s final_prices r)) = s"
  using assms
  by (simp add: compute_risk_metrics_def py_sorted_def py_int_def py_getitem_def Let_def)

theorem compute_risk_metrics_empty_witness:
  "fst (compute_risk_metrics [[1, 2], []] 1 (1 / 100)) = Inl IndexError
   \<and> take (length [[1, 2 :: real], []]) (snd (compute_risk_metrics [[1, 2], []] 1 (1 / 100)))
       = [[1, 2], []]"
proof -
  have h1: "(1 :: nat) < length [[1, 2 :: real], []]" by simp
  have h2: "[[1, 2 :: real], []] ! 1 = []" by simp
  from compute_risk_metrics_empty [OF h1 h2, of "1 / 100"]
  show ?thesis by simp
qed

text \<open>
  C8, as stated, fails. On a history of one record \<^verbatim>\<open>get_daily_returns\<close> prints a
  message and returns \<^verbatim>\<open>None\<close>; it raises nothing.
\<close>

theorem get_daily_returns_short_counterexample:
  "get_daily_returns [(''2024-01-02'', 100)] \<lparr>stdout = [], rng = sconst 0\<rparr>
     = (Inr None, \<lparr>stdout = [''Not enough data for simulation.''], rng = sconst 0\<rparr>)
   \<and> fst (get_daily_returns [(''2024-01-02'', 100)] \<lparr>stdout = [], rng = sconst 0\<rparr>)
       \<noteq> Inl InsufficientDataError"
  by (simp add: get_daily_returns_def)

text \<open>
  C8, as amended. On a history of fewer than two records \<^verbatim>\<open>get_daily_returns\<close>
  prints "Not enough data for simulation." and returns \<^verbatim>\<open>None\<close>, and its caller
  \<^verbatim>\<open>monte_carlo_simulation\<close> returns \<^verbatim>\<open>None\<close> in turn, without a draw.
\<close>

theorem get_daily_returns_short:
  assumes "length rows < 2"
  shows "get_daily_returns rows w =
           (Inr None, w\<lparr>stdout := stdout w @ [''Not enough data for simulation.'']\<rparr>)
         \<and> monte_carlo_simulation rows last_row days simulations w =
           (Inr None, w\<lparr>stdout := stdout w @ [''Not enough data for simulation.'']\<rparr>)"
  using assms by (simp add: monte_carlo_simulation_def get_daily_returns_def)

theorem get_daily_returns_short_witness:
  "length [(''2024-01-02'', 100 :: real)] < 2
   \<and> monte_carlo_simulation [(''2024-01-02'', 100)] (Some 100) 30 1000 \<lparr>stdout = [], rng = sconst 0\<rparr>
     = (Inr None, \<lparr>stdout = [''Not enough data for simulation.''], rng = sconst 0\<rparr>)"
proof -
  have h: "length [(''2024-01-02'', 100 :: real)] < 2" by simp
  from get_daily_returns_short [OF h, of "\<lparr>stdout = [], rng = sconst 0\<rparr>" "Some 100" 30 1000]
  show ?thesis by simp
qed

text \<open>
  C9, as stated, fails. On the closes 100, 150, 75 the returns are 0.5 and -0.5, so
  the mean is 0 and the volatility 0.5; a standard normal variate of -3 gives the
  factor -1.5 and the price after one day is \<open>75 * (1 - 1.5) = -37.5\<close>.
\<close>

theorem monte_carlo_simulation_negative_price_counterexample:
  "monte_carlo_simulation
      [(''2024-01-02'', 100), (''2024-01-03'', 150), (''2024-01-04'', 75)] (Some 75) 1 1
      \<lparr>stdout = [], rng = (- 3) ## sconst 0\<rparr>
     = (Inr (Some [[75, - 75 / 2]]), \<lparr>stdout = [], rng = sconst 0\<rparr>)"
  by (simp add: monte_carlo_simulation_def get_daily_returns_def return_statistics_def
      py_truediv_def py_sum_def py_max_def py_min_def simulate_def
      simulations_loop_step path_loop_step eval_nat_numeral)

text \<open>
  C9, as amended, in binary64. For a positive start price, if every factor
  \<^verbatim>\<open>1 + random_factor\<close> that line 88 multiplies by is a positive finite float, then
  every element of every path is a non-negative float or \<open>+inf\<close>: never negative and
  never NaN. The source does not bound the Gaussian draw, so the proviso is needed; and
  the elements need not stay positive, because a product can underflow to 0.0.
\<close>

theorem simulate_fl_nonnegative:
  assumes "fpositive start_price"
    and "\<forall>i<nat simulations * nat days. fpositive (factor_fl avg_return volatility (g !! i))"
    and "path \<in> set (fst (simulate_fl start_price avg_return volatility days simulations g))"
    and "x \<in> set path"
  shows "fnonneg x"
proof -
  have "fnonneg start_price" using assms(1) by (cases start_price) simp_all
  then have "\<forall>p\<in>set (fst (simulations_loop_fl (nat simulations) days start_price avg_return
                        volatility [] g)). \<forall>x\<in>set p. fnonneg x"
    using assms(2) by (intro simulations_loop_fl_nonneg) simp_all
  with assms(3,4) show ?thesis by (simp add: simulate_fl_def)
qed

theorem simulate_fl_nonnegative_witness:
  "[Fin 100, Fin 150, Fin 225] \<in> set (fst (simulate_fl (Fin 100) (Fin 0) (Fin (1 / 2)) 2 1 (sconst 1)))
   \<and> Fin 225 \<in> set [Fin 100, Fin 150, Fin 225] \<and> fnonneg (Fin 225)"
proof -
  have f: "factor_fl (Fin 0) (Fin (1 / 2)) 1 = Fin (3 / 2)"
    by (simp add: factor_fl_def fround_eval)
  have m1: "fround 150 = Fin 150" by (simp add: fround_eval)
  have m2: "fround 225 = Fin 225" by (simp add: fround_eval)
  have h1: "fpositive (Fin 100)" by simp
  have h2: "\<forall>i<nat 1 * nat 2. fpositive (factor_fl (Fin 0) (Fin (1 / 2)) (sconst 1 !! i))"
    by (simp add: f)
  have h3: "[Fin 100, Fin 150, Fin 225]
              \<in> set (fst (simulate_fl (Fin 100) (Fin 0) (Fin (1 / 2)) 2 1 (sconst 1)))"
    by (simp add: simulate_fl_def path_loop_fl_step simulations_loop_fl_step eval_nat_numeral
        f m1 m2)
  have h4: "Fin 225 \<in> set [Fin 100, Fin 150, Fin 225]" by simp
  from simulate_fl_nonnegative [OF h1 h2 h3 h4] h3 h4
  show ?thesis by simp
qed

text \<open>
  C10. \<^verbatim>\<open>compute_risk_metrics\<close> leaves the caller's list as it was: the sorted list
  is a new object, and every list object that existed before the call, the argument
  among them, holds the same elements after it.
\<close>

theorem compute_risk_metrics_frame:
  assumes "final_prices < length s" and "s ! final_prices \<noteq> []"
  shows "snd (compute_risk_metrics s final_prices r) ! final_prices = s ! final_prices
         \<and> take (length s) (snd (compute_risk_metrics s final_prices r)) = s"
  using assms(1)
  by (simp add: compute_risk_metrics_def py_sorted_def Let_def nth_append)

theorem compute_risk_metrics_frame_witness:
  "snd (compute_risk_metrics [[110, 90, 100]] 0 (1 / 100)) ! 0 = [110, 90, 100]
   \<and> snd (compute_risk_metrics [[110, 90, 100]] 0 (1 / 100)) = [[110, 90, 100], [90, 100, 110]]"
proof -
  have h1: "(0 :: nat) < length [[110, 90, 100 :: real]]" by simp
  have h2: "[[110, 90, 100 :: real]] ! 0 \<noteq> []" by simp
  have e: "snd (compute_risk_metrics [[110, 90, 100]] 0 (1 / 100)) = [[110, 90, 100], [90, 100, 110]]"
    by (simp add: compute_risk_metrics_def py_sorted_def Let_def)
  from compute_risk_metrics_frame [OF h1 h2, of "1 / 100"] e
  show ?thesis by simp
qed

end
